theory Spec2Isabelle
  imports Main "HOL-Library.Sublist"
begin

section \<open>The \<open>server generate\<close> command of natscli\<close>

text \<open>
  The development embeds \<^verbatim>\<open>generateAction\<close> of \<^verbatim>\<open>cli/server_generate.go\<close>.
  The function is glue: it checks the target, picks a loader for the bundle, checks the
  bundle's requirements, builds the environment and calls the renderer. Every callee
  lives outside the file (\<^verbatim>\<open>iu.FileExists\<close>, \<^verbatim>\<open>url.Parse\<close>,
  \<^verbatim>\<open>scaffold.FromUrl\<close>, \<^verbatim>\<open>scaffold.FromFile\<close>, \<^verbatim>\<open>au.GetAuthBuilder\<close>,
  \<^verbatim>\<open>auth.Operators().List()\<close>, \<^verbatim>\<open>b.Run\<close>, \<^verbatim>\<open>opts().Trace\<close>), so the
  callees are the fields of a record \<open>world\<close>, and the function returns, next to its
  error result, the list of calls it made, in order.
\<close>

subsection \<open>Data\<close>

text \<open>
  A Go \<^verbatim>\<open>error\<close>. \<open>Errorf f args\<close> is the value \<^verbatim>\<open>fmt.Errorf(f, args...)\<close> with the
  format string and its arguments kept apart (the text of \<^verbatim>\<open>%q\<close> is the business of
  package \<^verbatim>\<open>fmt\<close>); \<open>CalleeError m\<close> is an error value made elsewhere, with message
  \<open>m\<close>. A callee may return either.
\<close>

datatype error = Errorf string "string list" | CalleeError string

text \<open>
  A value of Go's \<^verbatim>\<open>any\<close> as far as an environment holds one: a string, a number or a
  boolean. \<^verbatim>\<open>map[string]any\<close> is a map from strings.
\<close>

datatype any = AnyString string | AnyNumber int | AnyBool bool

type_synonym env = "string \<rightharpoonup> any"

text \<open>\<^verbatim>\<open>type serverGenerateCmd struct { source string; target string }\<close>\<close>

record serverGenerateCmd =
  source :: string
  target :: string

text \<open>
  Of \<^verbatim>\<open>url.URL\<close> the function reads \<^verbatim>\<open>Scheme\<close>, of \<^verbatim>\<open>scaffold.Bundle\<close> it reads
  \<^verbatim>\<open>Requires.Operator\<close>. The other fields are the extension part of the records.
\<close>

record URL =
  Scheme :: string

record Requires =
  Operator :: bool

record Bundle =
  Requires :: Requires

text \<open>
  The calls \<^verbatim>\<open>generateAction\<close> can make, with their arguments. \<open>'a\<close> is the type of the
  handle \<^verbatim>\<open>au.GetAuthBuilder\<close> returns.
\<close>

datatype ('u, 'b, 'a) call =
    FileExists_call string
  | url_Parse_call string
  | FromUrl_call "'u URL_scheme"
  | FromFile_call string
  | GetAuthBuilder_call
  | Operators_List_call 'a
  | Run_call "'b Bundle_scheme" string env bool

text \<open>
  The callees. A Go function returning \<^verbatim>\<open>(v, err)\<close> is a function into \<open>error + v\<close>:
  the code reads \<^verbatim>\<open>v\<close> only where \<^verbatim>\<open>err == nil\<close>. \<^verbatim>\<open>b.Run\<close> returns an error or
  \<^verbatim>\<open>nil\<close>. \<open>'o\<close> is the type of an operator in the list of the authority store.
\<close>

record ('u, 'b, 'a, 'o) world =
  FileExists :: "string \<Rightarrow> bool"
  url_Parse :: "string \<Rightarrow> error + 'u URL_scheme"
  FromUrl :: "'u URL_scheme \<Rightarrow> error + 'b Bundle_scheme"
  FromFile :: "string \<Rightarrow> error + 'b Bundle_scheme"
  GetAuthBuilder :: "error + 'a"
  Operators_List :: "'a \<Rightarrow> 'o list"
  Run :: "'b Bundle_scheme \<Rightarrow> string \<Rightarrow> env \<Rightarrow> bool \<Rightarrow> error option"
  opts_Trace :: bool

subsection \<open>\<^verbatim>\<open>strings.Contains\<close>\<close>

text \<open>
  \<^verbatim>\<open>strings.Contains(s, substr)\<close> reports whether \<open>substr\<close> occurs in \<open>s\<close>: at the
  front of \<open>s\<close> or further in.
\<close>

fun contains :: "string \<Rightarrow> string \<Rightarrow> bool" where
  "contains [] substr = (substr = [])"
| "contains (x # s) substr = (prefix substr (x # s) \<or> contains s substr)"

subsection \<open>\<^verbatim>\<open>generateAction\<close>\<close>

text \<open>
  The body of \<^verbatim>\<open>generateAction\<close>, statement by statement. The first component of the
  result is the returned error (\<open>None\<close> for \<^verbatim>\<open>nil\<close>), the second the calls made.
  In the \<^verbatim>\<open>switch\<close>, the two \<^verbatim>\<open>return\<close>s of the URL case and the
  \<^verbatim>\<open>if err != nil\<close> after it all leave with the error at hand, which is \<open>Inl\<close> here.
\<close>

definition generateAction ::
  "('u, 'b, 'a, 'o) world \<Rightarrow> serverGenerateCmd \<Rightarrow> error option \<times> ('u, 'b, 'a) call list"
where
  "generateAction w c =
    (if FileExists w (target c) then
       (Some (Errorf ''target directory %s already exist'' [target c]),
        [FileExists_call (target c)])
     else
       case
         (if contains (source c) ''://'' then
            (case url_Parse w (source c) of
               Inl err \<Rightarrow> (Inl err, [url_Parse_call (source c)])
             | Inr uri \<Rightarrow>
                 if Scheme uri = '''' then
                   (Inl (Errorf ''invalid URL %q'' [source c]), [url_Parse_call (source c)])
                 else
                   (FromUrl w uri, [url_Parse_call (source c), FromUrl_call uri]))
          else
            (FromFile w (source c), [FromFile_call (source c)]))
       of
         (Inl err, loading) \<Rightarrow> (Some err, FileExists_call (target c) # loading)
       | (Inr b, loading) \<Rightarrow>
           (case
              (if Operator (Requires b) then
                 (case GetAuthBuilder w of
                    Inl err \<Rightarrow> (Some err, [GetAuthBuilder_call])
                  | Inr auth \<Rightarrow>
                      if length (Operators_List w auth) = 0 then
                        (Some (Errorf ''no operator found'' []),
                         [GetAuthBuilder_call, Operators_List_call auth])
                      else
                        (None, [GetAuthBuilder_call, Operators_List_call auth]))
               else (None, []))
            of
              (Some err, checking) \<Rightarrow>
                (Some err, FileExists_call (target c) # loading @ checking)
            | (None, checking) \<Rightarrow>
                (let env = [''_target'' \<mapsto> AnyString (target c),
                            ''_source'' \<mapsto> AnyString (source c)]
                 in (Run w b (target c) env (opts_Trace w),
                     FileExists_call (target c) # loading @ checking @
                       [Run_call b (target c) env (opts_Trace w)]))))"

subsection \<open>Reading a run\<close>

text \<open>
  The error a call came back with, in a given world: this is what a stage of the run
  "produced" when it failed. \<^verbatim>\<open>iu.FileExists\<close> and the operator list return no error.
\<close>

fun call_error :: "('u, 'b, 'a, 'o) world \<Rightarrow> ('u, 'b, 'a) call \<Rightarrow> error option" where
  "call_error w (FileExists_call t) = None"
| "call_error w (url_Parse_call s) = (case url_Parse w s of Inl e \<Rightarrow> Some e | Inr _ \<Rightarrow> None)"
| "call_error w (FromUrl_call u) = (case FromUrl w u of Inl e \<Rightarrow> Some e | Inr _ \<Rightarrow> None)"
| "call_error w (FromFile_call s) = (case FromFile w s of Inl e \<Rightarrow> Some e | Inr _ \<Rightarrow> None)"
| "call_error w GetAuthBuilder_call = (case GetAuthBuilder w of Inl e \<Rightarrow> Some e | Inr _ \<Rightarrow> None)"
| "call_error w (Operators_List_call a) = None"
| "call_error w (Run_call b t e tr) = Run w b t e tr"

text \<open>
  The place of a call in the pipeline: the target check, then loading (parse the URL,
  then fetch; or read the file), then the requirements (the handle, then the list), then
  rendering.
\<close>

fun call_order :: "('u, 'b, 'a) call \<Rightarrow> nat" where
  "call_order (FileExists_call t) = 0"
| "call_order (url_Parse_call s) = 1"
| "call_order (FromUrl_call u) = 2"
| "call_order (FromFile_call s) = 2"
| "call_order GetAuthBuilder_call = 3"
| "call_order (Operators_List_call a) = 4"
| "call_order (Run_call b t e tr) = 5"

fun is_Run_call :: "('u, 'b, 'a) call \<Rightarrow> bool" where
  "is_Run_call (Run_call b t e tr) = True"
| "is_Run_call _ = False"

fun is_auth_call :: "('u, 'b, 'a) call \<Rightarrow> bool" where
  "is_auth_call GetAuthBuilder_call = True"
| "is_auth_call (Operators_List_call a) = True"
| "is_auth_call _ = False"

fun is_loading_call :: "('u, 'b, 'a) call \<Rightarrow> bool" where
  "is_loading_call (url_Parse_call s) = True"
| "is_loading_call (FromUrl_call u) = True"
| "is_loading_call (FromFile_call s) = True"
| "is_loading_call _ = False"

text \<open>
  What lines 47 to 64 deliver when they do not return: the bundle \<open>b\<close> that the source
  string of the command resolves to. With \<^verbatim>\<open>://\<close> in the string this is the bundle
  fetched from the parsed URL, whose scheme is not empty; without, the bundle read from
  the file.
\<close>

definition loads ::
  "('u, 'b, 'a, 'o) world \<Rightarrow> serverGenerateCmd \<Rightarrow> 'b Bundle_scheme \<Rightarrow> bool"
where
  "loads w c b =
     (if contains (source c) ''://'' then
        (case url_Parse w (source c) of
           Inl err \<Rightarrow> False
         | Inr uri \<Rightarrow> Scheme uri \<noteq> '''' \<and> FromUrl w uri = Inr b)
      else FromFile w (source c) = Inr b)"

text \<open>
  What lines 66 to 74 let through: a bundle that requires an operator passes when the
  handle of the authority store is obtained and the store lists an operator.
\<close>

definition requirements_pass :: "('u, 'b, 'a, 'o) world \<Rightarrow> 'b Bundle_scheme \<Rightarrow> bool" where
  "requirements_pass w b =
     (Operator (Requires b) \<longrightarrow>
        (case GetAuthBuilder w of
           Inl err \<Rightarrow> False
         | Inr auth \<Rightarrow> Operators_List w auth \<noteq> []))"

subsection \<open>The renderer, from the specification\<close>

text \<open>
  Modelled from the spec: the declaration of \<^verbatim>\<open>scaffold.Bundle\<close> is in package
  \<^verbatim>\<open>internal/scaffold\<close>, which is not among the sources. Section 3 of the
  specification gives a bundle its requirements, an ordered list of declared variables
  with optional defaults and descriptions, an ordered sequence of entries, and metadata
  (name and description). An entry has a relative target path (here the list of its
  components), a template body (here already cut into literal text and named
  placeholders) and an optional boolean condition over the environment.
\<close>

datatype piece = Literal string | Placeholder string

record Entry =
  entry_path :: "string list"
  entry_body :: "piece list"
  entry_condition :: "(env \<Rightarrow> bool) option"

record Variable =
  var_name :: string
  var_default :: "any option"
  var_description :: string

record SpecBundle = Bundle +
  variables :: "Variable list"
  entries :: "Entry list"
  metadata :: "string \<times> string"

text \<open>
  Modelled from the spec: the errors of the renderer named in section 4.4, the error for
  a target that exists and the error for an undefined placeholder, which identifies the
  entry and the missing key.
\<close>

datatype render_error = TargetExistsError | RenderError "string list" string

text \<open>
  Modelled from the spec: the file system the renderer writes to, as a map from paths to
  directories and files with their bytes, and the trace lines of section 4.4, step 5
  (the action taken and the resolved path).
\<close>

datatype node = Directory | File string

type_synonym fs = "string \<rightharpoonup> node"

datatype trace_line = Created string | Skipped string

text \<open>
  Modelled from the spec: the resolved path of a relative path under the target
  (section 4.4, steps 3 and 4).
\<close>

definition join :: "string \<Rightarrow> string list \<Rightarrow> string" where
  "join t p = t @ concat (map (\<lambda>s. CHR ''/'' # s) p)"

text \<open>
  Modelled from the spec: section 4.4, step 2. The body is rendered by substituting the
  values of the environment into the named placeholders; a placeholder the environment
  does not define fails with the entry and the key. How a value is written out as text
  is left open by the specification and is the parameter \<open>fmt\<close>.
\<close>

fun render_body ::
  "(any \<Rightarrow> string) \<Rightarrow> env \<Rightarrow> string list \<Rightarrow> piece list \<Rightarrow> render_error + string"
where
  "render_body fmt e p [] = Inr []"
| "render_body fmt e p (Literal s # ps) =
     (case render_body fmt e p ps of Inl err \<Rightarrow> Inl err | Inr r \<Rightarrow> Inr (s @ r))"
| "render_body fmt e p (Placeholder k # ps) =
     (case e k of
        None \<Rightarrow> Inl (RenderError p k)
      | Some v \<Rightarrow>
          (case render_body fmt e p ps of Inl err \<Rightarrow> Inl err | Inr r \<Rightarrow> Inr (fmt v @ r)))"

text \<open>
  Modelled from the spec: section 4.4, step 3, "create any missing parent directories
  under the target for the entry's relative path": every proper, non-empty prefix of the
  relative path, shortest first, becomes a directory where nothing is there yet.
\<close>

definition make_parents :: "string \<Rightarrow> string list \<Rightarrow> fs \<Rightarrow> fs" where
  "make_parents t p f =
     fold (\<lambda>q g. if g (join t q) = None then g(join t q \<mapsto> Directory) else g)
       (tl (butlast (prefixes p))) f"

text \<open>
  Modelled from the spec: the loop of section 4.4 over the entries in declaration order.
  An entry whose condition is false is skipped with no effect but its trace line; a body
  that fails to render ends the run with what was written so far; otherwise the parents
  are made and the rendered bytes are written to the resolved path.
\<close>

fun render_entries ::
  "(any \<Rightarrow> string) \<Rightarrow> string \<Rightarrow> env \<Rightarrow> bool \<Rightarrow> Entry list \<Rightarrow> fs \<Rightarrow> trace_line list
     \<Rightarrow> render_error option \<times> fs \<times> trace_line list"
where
  "render_entries fmt t e tr [] f out = (None, f, out)"
| "render_entries fmt t e tr (x # xs) f out =
     (if (case entry_condition x of None \<Rightarrow> False | Some cond \<Rightarrow> \<not> cond e) then
        render_entries fmt t e tr xs f
          (if tr then out @ [Skipped (join t (entry_path x))] else out)
      else
        case render_body fmt e (entry_path x) (entry_body x) of
          Inl err \<Rightarrow> (Some err, f, out)
        | Inr bytes \<Rightarrow>
            render_entries fmt t e tr xs
              ((make_parents t (entry_path x) f)(join t (entry_path x) \<mapsto> File bytes))
              (if tr then out @ [Created (join t (entry_path x))] else out))"

text \<open>
  Modelled from the spec: the renderer \<^verbatim>\<open>scaffold.Bundle.Run\<close> of package
  \<^verbatim>\<open>internal/scaffold\<close>, which is not among the sources, after the contract of
  section 4.4: given target path, bundle, environment and trace flag, fail at once if
  the target exists, else create the target directory and render the entries. The
  result is the error if any, the file system after the run, and the trace lines.
\<close>

definition Run_spec ::
  "(any \<Rightarrow> string) \<Rightarrow> 'b SpecBundle_scheme \<Rightarrow> string \<Rightarrow> env \<Rightarrow> bool \<Rightarrow> fs
     \<Rightarrow> render_error option \<times> fs \<times> trace_line list"
where
  "Run_spec fmt b t e tr f =
     (if f t \<noteq> None then (Some TargetExistsError, f, [])
      else render_entries fmt t e tr (entries b) (f(t \<mapsto> Directory)) [])"

text \<open>
  The output tree of a target: what the file system holds at the target and beneath it,
  by relative path. A target is fresh when nothing is there.
\<close>

definition output_tree :: "fs \<Rightarrow> string \<Rightarrow> (string list \<rightharpoonup> node)" where
  "output_tree f t = (\<lambda>p. f (join t p))"

definition fresh :: "fs \<Rightarrow> string \<Rightarrow> bool" where
  "fresh f t = (\<forall>p. f (join t p) = None)"

subsection \<open>Sample worlds and bundles\<close>

text \<open>
  A world for concrete runs: the paths in \<open>existing\<close> exist; a URL parses into the text
  before its first colon as scheme when that text is not empty and does not start with a
  slash, and into an empty scheme when it starts with a slash; every bundle that loads has
  \<open>Requires.Operator = op\<close>; the authority store holds \<open>ops\<close>; rendering returns
  \<open>r\<close>.
\<close>

definition sample_parse :: "string \<Rightarrow> error + URL" where
  "sample_parse s =
     (if s = [] \<or> hd s = CHR '':'' then Inl (CalleeError ''missing protocol scheme'')
      else if hd s = CHR ''/'' then Inr \<lparr>Scheme = ''''\<rparr>
      else Inr \<lparr>Scheme = takeWhile (\<lambda>ch. ch \<noteq> CHR '':'') s\<rparr>)"

definition sample_world ::
  "string list \<Rightarrow> bool \<Rightarrow> error + nat \<Rightarrow> error option \<Rightarrow> (unit, unit, nat, string) world"
where
  "sample_world existing op store r =
     \<lparr>FileExists = (\<lambda>p. p \<in> set existing),
      url_Parse = sample_parse,
      FromUrl = (\<lambda>u. if Scheme u = ''https'' then Inr \<lparr>Requires = \<lparr>Operator = op\<rparr>\<rparr>
                      else Inl (CalleeError ''unsupported protocol scheme'')),
      FromFile = (\<lambda>p. if p \<in> set existing then Inr \<lparr>Requires = \<lparr>Operator = op\<rparr>\<rparr>
                       else Inl (CalleeError ''no such file or directory'')),
      GetAuthBuilder = store,
      Operators_List = (\<lambda>n. replicate n ''OP''),
      Run = (\<lambda>b t e tr. r),
      opts_Trace = False\<rparr>"

text \<open>
  The bundle of the scenario in section 8 of the specification, one unconditional entry
  \<^verbatim>\<open>config.txt\<close> with the body \<^verbatim>\<open>Hello {{name}}\<close>, and a second, conditional
  entry in a subdirectory.
\<close>

definition hello_bundle :: SpecBundle where
  "hello_bundle =
     \<lparr>Requires = \<lparr>Operator = False\<rparr>,
      variables = [\<lparr>var_name = ''name'', var_default = Some (AnyString ''world''),
                    var_description = ''''\<rparr>],
      entries = [\<lparr>entry_path = [''config.txt''],
                  entry_body = [Literal ''Hello '', Placeholder ''name''],
                  entry_condition = None\<rparr>,
                 \<lparr>entry_path = [''conf.d'', ''extra.txt''],
                  entry_body = [Literal ''from '', Placeholder ''_source''],
                  entry_condition = Some (\<lambda>e. e ''extra'' = Some (AnyBool True))\<rparr>],
      metadata = (''hello'', '''')\<rparr>"

fun plain :: "any \<Rightarrow> string" where
  "plain (AnyString s) = s"
| "plain (AnyNumber n) = (if n < 0 then ''-'' else ''+'')"
| "plain (AnyBool b) = (if b then ''true'' else ''false'')"

definition hello_env :: env where
  "hello_env = [''name'' \<mapsto> AnyString ''world'', ''extra'' \<mapsto> AnyBool True,
                ''_source'' \<mapsto> AnyString ''bundle.yaml'']"

section \<open>Properties\<close>

lemma contains_iff_sublist: "contains s substr \<longleftrightarrow> sublist substr s"
  by (induction s) (auto simp: sublist_Cons_right)

subsection \<open>Helper facts\<close>

lemmas run_splits = if_splits sum.splits option.splits prod.splits

lemma join_same: "(join t1 p = join t1 q) = (join t2 p = join t2 q)"
  by (simp add: join_def)

lemma output_tree_update:
  assumes "output_tree f1 t1 = output_tree f2 t2"
  shows "output_tree (f1(join t1 q \<mapsto> v)) t1 = output_tree (f2(join t2 q \<mapsto> v)) t2"
proof (rule ext)
  fix p
  from assms have "f1 (join t1 p) = f2 (join t2 p)"
    by (simp add: output_tree_def fun_eq_iff)
  then show "output_tree (f1(join t1 q \<mapsto> v)) t1 p = output_tree (f2(join t2 q \<mapsto> v)) t2 p"
    using join_same [of t1 p q t2] by (simp add: output_tree_def)
qed

lemma output_tree_parents:
  assumes "output_tree f1 t1 = output_tree f2 t2"
  shows "output_tree
           (fold (\<lambda>q g. if g (join t1 q) = None then g(join t1 q \<mapsto> Directory) else g) qs f1) t1
       = output_tree
           (fold (\<lambda>q g. if g (join t2 q) = None then g(join t2 q \<mapsto> Directory) else g) qs f2) t2"
  using assms
proof (induction qs arbitrary: f1 f2)
  case Nil
  then show ?case by simp
next
  case (Cons q qs)
  let ?F1 = "\<lambda>q g. if g (join t1 q) = None then g(join t1 q \<mapsto> Directory) else g"
  let ?F2 = "\<lambda>q g. if g (join t2 q) = None then g(join t2 q \<mapsto> Directory) else g"
  from Cons.prems have same: "f1 (join t1 q) = f2 (join t2 q)"
    by (simp add: output_tree_def fun_eq_iff)
  show ?case
  proof (cases "f1 (join t1 q) = None")
    case True
    with same have other: "f2 (join t2 q) = None" by simp
    have l: "fold ?F1 (q # qs) f1 = fold ?F1 qs (f1(join t1 q \<mapsto> Directory))"
      using True by (simp del: fun_upd_apply)
    have r: "fold ?F2 (q # qs) f2 = fold ?F2 qs (f2(join t2 q \<mapsto> Directory))"
      using other by (simp del: fun_upd_apply)
    show ?thesis
      unfolding l r by (rule Cons.IH [OF output_tree_update [OF Cons.prems]])
  next
    case False
    with same have other: "f2 (join t2 q) \<noteq> None" by simp
    have l: "fold ?F1 (q # qs) f1 = fold ?F1 qs f1"
      using False by (simp del: not_None_eq)
    have r: "fold ?F2 (q # qs) f2 = fold ?F2 qs f2"
      using other by (simp del: not_None_eq)
    show ?thesis
      unfolding l r by (rule Cons.IH [OF Cons.prems])
  qed
qed

lemma output_tree_make_parents:
  "output_tree f1 t1 = output_tree f2 t2 \<Longrightarrow>
   output_tree (make_parents t1 p f1) t1 = output_tree (make_parents t2 p f2) t2"
  unfolding make_parents_def by (rule output_tree_parents)

lemma render_entries_skip:
  assumes "case entry_condition x of None \<Rightarrow> False | Some cond \<Rightarrow> \<not> cond e"
  shows "render_entries fmt t e tr (x # xs) f out =
         render_entries fmt t e tr xs f
           (if tr then out @ [Skipped (join t (entry_path x))] else out)"
  using assms by simp

lemma render_entries_fail:
  assumes "\<not> (case entry_condition x of None \<Rightarrow> False | Some cond \<Rightarrow> \<not> cond e)"
    and "render_body fmt e (entry_path x) (entry_body x) = Inl err"
  shows "render_entries fmt t e tr (x # xs) f out = (Some err, f, out)"
  using assms by simp

lemma render_entries_write:
  assumes "\<not> (case entry_condition x of None \<Rightarrow> False | Some cond \<Rightarrow> \<not> cond e)"
    and "render_body fmt e (entry_path x) (entry_body x) = Inr bytes"
  shows "render_entries fmt t e tr (x # xs) f out =
         render_entries fmt t e tr xs
           ((make_parents t (entry_path x) f)(join t (entry_path x) \<mapsto> File bytes))
           (if tr then out @ [Created (join t (entry_path x))] else out)"
  using assms by (simp del: fun_upd_apply)

text \<open>
  The loop treats two file systems alike when they hold the same tree at their targets:
  the same error, and the same tree afterwards, with tracing on or off.
\<close>

lemma render_entries_same:
  assumes "output_tree f1 t1 = output_tree f2 t2"
  shows "fst (render_entries fmt t1 e tr1 xs f1 out1) = fst (render_entries fmt t2 e tr2 xs f2 out2)
       \<and> output_tree (fst (snd (render_entries fmt t1 e tr1 xs f1 out1))) t1
         = output_tree (fst (snd (render_entries fmt t2 e tr2 xs f2 out2))) t2"
  using assms
proof (induction xs arbitrary: f1 f2 out1 out2)
  case Nil
  then show ?case by simp
next
  case (Cons x xs)
  show ?case
  proof (cases "case entry_condition x of None \<Rightarrow> False | Some cond \<Rightarrow> \<not> cond e")
    case True
    show ?thesis
      unfolding render_entries_skip [OF True] by (rule Cons.IH [OF Cons.prems])
  next
    case keep: False
    show ?thesis
    proof (cases "render_body fmt e (entry_path x) (entry_body x)")
      case (Inl err)
      show ?thesis
        unfolding render_entries_fail [OF keep Inl] using Cons.prems by simp
    next
      case (Inr bytes)
      have "output_tree ((make_parents t1 (entry_path x) f1)(join t1 (entry_path x) \<mapsto> File bytes)) t1
          = output_tree ((make_parents t2 (entry_path x) f2)(join t2 (entry_path x) \<mapsto> File bytes)) t2"
        by (rule output_tree_update [OF output_tree_make_parents [OF Cons.prems]])
      then show ?thesis
        unfolding render_entries_write [OF keep Inr] by (rule Cons.IH)
    qed
  qed
qed

lemma fresh_target: "fresh f t \<Longrightarrow> f t = None"
  unfolding fresh_def join_def by (drule spec [of _ "[]"]) simp

text \<open>
  The scenario of section 8 on the renderer of the specification: the target holds
  \<^verbatim>\<open>config.txt\<close> with the contents \<^verbatim>\<open>Hello world\<close>.
\<close>

lemma hello_scenario:
  "fst (Run_spec plain hello_bundle ''out'' [''name'' \<mapsto> AnyString ''world''] False Map.empty) = None
 \<and> fst (snd (Run_spec plain hello_bundle ''out'' [''name'' \<mapsto> AnyString ''world''] False Map.empty))
      ''out/config.txt'' = Some (File ''Hello world'')"
  by (simp add: Run_spec_def hello_bundle_def join_def make_parents_def)

subsection \<open>The target check\<close>

text \<open>
  Claim C1. When the target path exists (\<^verbatim>\<open>iu.FileExists\<close> says so, for a file as for
  a directory), the run returns the error "target directory ... already exist" and its
  only call is the existence check: the source is not resolved, the requirements are
  not looked at, the renderer is not called. In every run the existence check is the
  first call, before any other step, and is made once.
\<close>

theorem existing_target_stops:
  "(FileExists w (target c) \<longrightarrow>
      generateAction w c =
        (Some (Errorf ''target directory %s already exist'' [target c]),
         [FileExists_call (target c)]))
   \<and> (\<exists>rest. snd (generateAction w c) = FileExists_call (target c) # rest
         \<and> (\<forall>x \<in> set rest. call_order x \<noteq> 0))"
  by (auto simp: generateAction_def Let_def split: run_splits)

theorem existing_target_stops_witness:
  "FileExists (sample_world [''/etc/nats''] True (Inr 0) None) ''/etc/nats''
 \<and> generateAction (sample_world [''/etc/nats''] True (Inr 0) None)
      \<lparr>source = ''bundle.yaml'', target = ''/etc/nats''\<rparr>
    = (Some (Errorf ''target directory %s already exist'' [''/etc/nats'']),
       [FileExists_call ''/etc/nats''])"
proof -
  have ex: "FileExists (sample_world [''/etc/nats''] True (Inr 0) None) ''/etc/nats''"
    by (simp add: sample_world_def)
  with existing_target_stops
         [of "sample_world [''/etc/nats''] True (Inr 0) None"
             "\<lparr>source = ''bundle.yaml'', target = ''/etc/nats''\<rparr>"]
  show ?thesis by simp
qed

subsection \<open>Classifying the source\<close>

text \<open>
  Claim C2. In a run that gets past the target check: a source string that contains
  \<^verbatim>\<open>://\<close> is handed to \<^verbatim>\<open>url.Parse\<close> and never read as a file, and a fetch, if there
  is one, is of the parsed URL, whose scheme is not empty; when the string parses with
  an empty scheme the run returns the error "invalid URL ..." and has fetched nothing,
  and when it does not parse the run returns the parser's error and has fetched nothing;
  a source string without \<^verbatim>\<open>://\<close> is read as a local file, whatever else it contains,
  and neither parsed as a URL nor fetched. When the string with \<^verbatim>\<open>://\<close> parses with a
  scheme that is not empty, the parsed URL is fetched, as the third call and the last
  loading call: the error of the fetch ends the run and is its result, and the bundle
  of the fetch is the bundle the run goes on with. Likewise the error of reading the
  local file ends the run and is its result, and the bundle read is the bundle the run
  goes on with.
\<close>

theorem source_classification:
  assumes "\<not> FileExists w (target c)" and "generateAction w c = (res, tr)"
  shows "(contains (source c) ''://'' \<longrightarrow>
            (\<exists>rest. tr = FileExists_call (target c) # url_Parse_call (source c) # rest
               \<and> (\<forall>p. FromFile_call p \<notin> set rest)
               \<and> (\<forall>u. FromUrl_call u \<in> set rest \<longrightarrow>
                     url_Parse w (source c) = Inr u \<and> Scheme u \<noteq> '''')))
       \<and> (contains (source c) ''://'' \<longrightarrow>
            (\<forall>uri. url_Parse w (source c) = Inr uri \<and> Scheme uri = '''' \<longrightarrow>
               res = Some (Errorf ''invalid URL %q'' [source c])
               \<and> tr = [FileExists_call (target c), url_Parse_call (source c)]))
       \<and> (contains (source c) ''://'' \<longrightarrow>
            (\<forall>err. url_Parse w (source c) = Inl err \<longrightarrow>
               res = Some err
               \<and> tr = [FileExists_call (target c), url_Parse_call (source c)]))
       \<and> (\<not> contains (source c) ''://'' \<longrightarrow>
            (\<exists>rest. tr = FileExists_call (target c) # FromFile_call (source c) # rest
               \<and> (\<forall>x \<in> set rest. \<not> is_loading_call x)))
       \<and> (contains (source c) ''://'' \<longrightarrow>
            (\<forall>uri. url_Parse w (source c) = Inr uri \<and> Scheme uri \<noteq> '''' \<longrightarrow>
               (\<exists>rest. tr = FileExists_call (target c) # url_Parse_call (source c)
                              # FromUrl_call uri # rest
                  \<and> (\<forall>x \<in> set rest. \<not> is_loading_call x)
                  \<and> (\<forall>err. FromUrl w uri = Inl err \<longrightarrow> res = Some err \<and> rest = [])
                  \<and> (\<forall>b. FromUrl w uri = Inr b \<longrightarrow> loads w c b))))
       \<and> (\<not> contains (source c) ''://'' \<longrightarrow>
            (\<forall>err. FromFile w (source c) = Inl err \<longrightarrow>
               res = Some err
               \<and> tr = [FileExists_call (target c), FromFile_call (source c)])
          \<and> (\<forall>b. FromFile w (source c) = Inr b \<longrightarrow> loads w c b))"
  using assms
  by (auto simp: generateAction_def loads_def Let_def split: run_splits)

theorem source_classification_witness:
  "contains ''https://example.com/bundle'' ''://''
 \<and> snd (generateAction (sample_world [] False (Inr 0) None)
      \<lparr>source = ''https://example.com/bundle'', target = ''out''\<rparr>)
    = [FileExists_call ''out'', url_Parse_call ''https://example.com/bundle'',
       FromUrl_call \<lparr>Scheme = ''https''\<rparr>,
       Run_call \<lparr>Requires = \<lparr>Operator = False\<rparr>\<rparr> ''out''
         [''_target'' \<mapsto> AnyString ''out'',
          ''_source'' \<mapsto> AnyString ''https://example.com/bundle''] False]
 \<and> contains ''/x://foo'' ''://''
 \<and> generateAction (sample_world [] False (Inr 0) None)
      \<lparr>source = ''/x://foo'', target = ''out''\<rparr>
    = (Some (Errorf ''invalid URL %q'' [''/x://foo'']),
       [FileExists_call ''out'', url_Parse_call ''/x://foo''])
 \<and> contains ''://foo'' ''://''
 \<and> generateAction (sample_world [] False (Inr 0) None)
      \<lparr>source = ''://foo'', target = ''out''\<rparr>
    = (Some (CalleeError ''missing protocol scheme''),
       [FileExists_call ''out'', url_Parse_call ''://foo''])
 \<and> \<not> contains ''C:/bundles/a.yaml'' ''://''
 \<and> generateAction (sample_world [''C:/bundles/a.yaml''] False (Inr 0) None)
      \<lparr>source = ''C:/bundles/a.yaml'', target = ''out''\<rparr>
    = (None,
       [FileExists_call ''out'', FromFile_call ''C:/bundles/a.yaml'',
        Run_call \<lparr>Requires = \<lparr>Operator = False\<rparr>\<rparr> ''out''
          [''_target'' \<mapsto> AnyString ''out'',
           ''_source'' \<mapsto> AnyString ''C:/bundles/a.yaml''] False])"
proof -
  let ?w = "sample_world [] False (Inr 0) None"
  let ?w' = "sample_world [''C:/bundles/a.yaml''] False (Inr 0) None"
  have r1: "generateAction ?w \<lparr>source = ''https://example.com/bundle'', target = ''out''\<rparr>
    = (None,
       [FileExists_call ''out'', url_Parse_call ''https://example.com/bundle'',
        FromUrl_call \<lparr>Scheme = ''https''\<rparr>,
        Run_call \<lparr>Requires = \<lparr>Operator = False\<rparr>\<rparr> ''out''
          [''_target'' \<mapsto> AnyString ''out'',
           ''_source'' \<mapsto> AnyString ''https://example.com/bundle''] False])"
    by (simp add: generateAction_def sample_world_def sample_parse_def)
  have r2: "generateAction ?w \<lparr>source = ''/x://foo'', target = ''out''\<rparr>
    = (Some (Errorf ''invalid URL %q'' [''/x://foo'']),
       [FileExists_call ''out'', url_Parse_call ''/x://foo''])"
    by (simp add: generateAction_def sample_world_def sample_parse_def)
  have r3: "generateAction ?w \<lparr>source = ''://foo'', target = ''out''\<rparr>
    = (Some (CalleeError ''missing protocol scheme''),
       [FileExists_call ''out'', url_Parse_call ''://foo''])"
    by (simp add: generateAction_def sample_world_def sample_parse_def)
  have r4: "generateAction ?w' \<lparr>source = ''C:/bundles/a.yaml'', target = ''out''\<rparr>
    = (None,
       [FileExists_call ''out'', FromFile_call ''C:/bundles/a.yaml'',
        Run_call \<lparr>Requires = \<lparr>Operator = False\<rparr>\<rparr> ''out''
          [''_target'' \<mapsto> AnyString ''out'',
           ''_source'' \<mapsto> AnyString ''C:/bundles/a.yaml''] False])"
    by (simp add: generateAction_def sample_world_def sample_parse_def)
  have c: "contains ''https://example.com/bundle'' ''://''" "contains ''/x://foo'' ''://''"
    "contains ''://foo'' ''://''" "\<not> contains ''C:/bundles/a.yaml'' ''://''"
    by simp_all
  have s1: "snd (generateAction ?w \<lparr>source = ''https://example.com/bundle'', target = ''out''\<rparr>)
    = [FileExists_call ''out'', url_Parse_call ''https://example.com/bundle'',
       FromUrl_call \<lparr>Scheme = ''https''\<rparr>,
       Run_call \<lparr>Requires = \<lparr>Operator = False\<rparr>\<rparr> ''out''
         [''_target'' \<mapsto> AnyString ''out'',
          ''_source'' \<mapsto> AnyString ''https://example.com/bundle''] False]"
    by (simp only: r1 snd_conv)
  have n1: "\<not> FileExists ?w (target \<lparr>source = ''https://example.com/bundle'', target = ''out''\<rparr>)"
    and n2: "\<not> FileExists ?w (target \<lparr>source = ''/x://foo'', target = ''out''\<rparr>)"
    and n3: "\<not> FileExists ?w (target \<lparr>source = ''://foo'', target = ''out''\<rparr>)"
    and n4: "\<not> FileExists ?w' (target \<lparr>source = ''C:/bundles/a.yaml'', target = ''out''\<rparr>)"
    by (simp_all add: sample_world_def)
  note i1 = source_classification [OF n1 r1]
    and i2 = source_classification [OF n2 r2]
    and i3 = source_classification [OF n3 r3]
    and i4 = source_classification [OF n4 r4]
  from i1 i2 i3 i4 c s1 r2 r3 r4
  show ?thesis by blast
qed

subsection \<open>The requirements\<close>

subsection \<open>The requirements\<close>

text \<open>
  Claim C3. When the bundle the source resolves to requires an operator, the handle of
  the authority store is obtained and the store lists no operator, a run that got past
  the target check returns the error "no operator found"; its last call is the query of
  the store; the renderer, the one step that writes, is not called.
\<close>

theorem operator_required_none_found:
  assumes "\<not> FileExists w (target c)" and "loads w c b" and "Operator (Requires b)"
    and "GetAuthBuilder w = Inr auth" and "Operators_List w auth = []"
  shows "fst (generateAction w c) = Some (Errorf ''no operator found'' [])
       \<and> (\<forall>x \<in> set (snd (generateAction w c)). \<not> is_Run_call x)
       \<and> last (snd (generateAction w c)) = Operators_List_call auth"
  using assms
  by (auto simp: generateAction_def loads_def Let_def split: run_splits)

theorem operator_required_none_found_witness:
  "\<not> FileExists (sample_world [''bundle.yaml''] True (Inr 0) None) ''out''
 \<and> loads (sample_world [''bundle.yaml''] True (Inr 0) None)
      \<lparr>source = ''bundle.yaml'', target = ''out''\<rparr> \<lparr>Requires = \<lparr>Operator = True\<rparr>\<rparr>
 \<and> GetAuthBuilder (sample_world [''bundle.yaml''] True (Inr 0) None) = Inr 0
 \<and> Operators_List (sample_world [''bundle.yaml''] True (Inr 0) None) 0 = []
 \<and> fst (generateAction (sample_world [''bundle.yaml''] True (Inr 0) None)
      \<lparr>source = ''bundle.yaml'', target = ''out''\<rparr>)
    = Some (Errorf ''no operator found'' [])
 \<and> last (snd (generateAction (sample_world [''bundle.yaml''] True (Inr 0) None)
      \<lparr>source = ''bundle.yaml'', target = ''out''\<rparr>))
    = Operators_List_call 0"
proof -
  let ?w = "sample_world [''bundle.yaml''] True (Inr 0) None"
  let ?c = "\<lparr>source = ''bundle.yaml'', target = ''out''\<rparr>"
  have h1: "\<not> FileExists ?w (target ?c)" by (simp add: sample_world_def)
  have h2: "loads ?w ?c \<lparr>Requires = \<lparr>Operator = True\<rparr>\<rparr>"
    by (simp add: loads_def sample_world_def)
  have h3: "Operator (Requires \<lparr>Requires = \<lparr>Operator = True\<rparr>\<rparr>)" by simp
  have h4: "GetAuthBuilder ?w = Inr 0" by (simp add: sample_world_def)
  have h5: "Operators_List ?w 0 = []" by (simp add: sample_world_def)
  from operator_required_none_found [OF h1 h2 h3 h4 h5] h1 h2 h4 h5
  show ?thesis by simp
qed

text \<open>
  Claim C9. When the bundle the source resolves to does not require an operator, the
  run makes no call to the authority store, neither for the handle nor for the list, and
  its outcome is the same whatever the store would answer; past the target check it goes
  on to the renderer, whose result is the result of the run.
\<close>

theorem no_requirement_no_store_query:
  assumes "loads w c b" and "\<not> Operator (Requires b)"
  shows "(\<forall>x \<in> set (snd (generateAction w c)). \<not> is_auth_call x)
       \<and> generateAction (w\<lparr>GetAuthBuilder := g, Operators_List := l\<rparr>) c = generateAction w c
       \<and> (\<not> FileExists w (target c) \<longrightarrow>
            fst (generateAction w c) =
              Run w b (target c)
                [''_target'' \<mapsto> AnyString (target c), ''_source'' \<mapsto> AnyString (source c)]
                (opts_Trace w)
          \<and> last (snd (generateAction w c)) =
              Run_call b (target c)
                [''_target'' \<mapsto> AnyString (target c), ''_source'' \<mapsto> AnyString (source c)]
                (opts_Trace w))"
  using assms
  by (auto simp: generateAction_def loads_def Let_def split: run_splits)

theorem no_requirement_no_store_query_witness:
  "loads (sample_world [''bundle.yaml''] False (Inl (CalleeError ''no store'')) None)
      \<lparr>source = ''bundle.yaml'', target = ''out''\<rparr> \<lparr>Requires = \<lparr>Operator = False\<rparr>\<rparr>
 \<and> \<not> FileExists (sample_world [''bundle.yaml''] False (Inl (CalleeError ''no store'')) None) ''out''
 \<and> snd (generateAction
        (sample_world [''bundle.yaml''] False (Inl (CalleeError ''no store'')) None)
        \<lparr>source = ''bundle.yaml'', target = ''out''\<rparr>)
    = [FileExists_call ''out'', FromFile_call ''bundle.yaml'',
       Run_call \<lparr>Requires = \<lparr>Operator = False\<rparr>\<rparr> ''out''
         [''_target'' \<mapsto> AnyString ''out'', ''_source'' \<mapsto> AnyString ''bundle.yaml''] False]
 \<and> fst (generateAction
        (sample_world [''bundle.yaml''] False (Inl (CalleeError ''no store'')) None)
        \<lparr>source = ''bundle.yaml'', target = ''out''\<rparr>) = None"
proof -
  let ?w = "sample_world [''bundle.yaml''] False (Inl (CalleeError ''no store'')) None"
  let ?c = "\<lparr>source = ''bundle.yaml'', target = ''out''\<rparr>"
  have h1: "loads ?w ?c \<lparr>Requires = \<lparr>Operator = False\<rparr>\<rparr>"
    by (simp add: loads_def sample_world_def)
  have h2: "\<not> Operator (Requires \<lparr>Requires = \<lparr>Operator = False\<rparr>\<rparr>)" by simp
  have h3: "\<not> FileExists ?w (target ?c)" by (simp add: sample_world_def)
  have h4: "Run ?w \<lparr>Requires = \<lparr>Operator = False\<rparr>\<rparr> (target ?c)
              [''_target'' \<mapsto> AnyString (target ?c), ''_source'' \<mapsto> AnyString (source ?c)]
              (opts_Trace ?w) = None"
    by (simp add: sample_world_def)
  have h5: "snd (generateAction ?w ?c)
    = [FileExists_call ''out'', FromFile_call ''bundle.yaml'',
       Run_call \<lparr>Requires = \<lparr>Operator = False\<rparr>\<rparr> ''out''
         [''_target'' \<mapsto> AnyString ''out'', ''_source'' \<mapsto> AnyString ''bundle.yaml''] False]"
    by (simp add: generateAction_def sample_world_def)
  from no_requirement_no_store_query [OF h1 h2] h1 h3 h4 h5
  show ?thesis by simp
qed

text \<open>
  Claim C10. When the bundle the source resolves to requires an operator and
  \<^verbatim>\<open>au.GetAuthBuilder\<close> fails, a run that got past the target check returns the error
  of that call as it is. The call for the handle is its last: the store is not asked
  for its operators, so the error "no operator found" is not raised, and the renderer
  is not called.
\<close>

theorem store_handle_failure_returned:
  assumes "\<not> FileExists w (target c)" and "loads w c b" and "Operator (Requires b)"
    and "GetAuthBuilder w = Inl e"
  shows "fst (generateAction w c) = Some e
       \<and> last (snd (generateAction w c)) = GetAuthBuilder_call
       \<and> (\<forall>x \<in> set (snd (generateAction w c)). \<not> is_Run_call x \<and> call_order x \<noteq> 4)"
  using assms
  by (auto simp: generateAction_def loads_def Let_def split: run_splits)

theorem store_handle_failure_returned_witness:
  "\<not> FileExists (sample_world [''bundle.yaml''] True (Inl (CalleeError ''no store'')) None) ''out''
 \<and> loads (sample_world [''bundle.yaml''] True (Inl (CalleeError ''no store'')) None)
      \<lparr>source = ''bundle.yaml'', target = ''out''\<rparr> \<lparr>Requires = \<lparr>Operator = True\<rparr>\<rparr>
 \<and> GetAuthBuilder (sample_world [''bundle.yaml''] True (Inl (CalleeError ''no store'')) None)
    = Inl (CalleeError ''no store'')
 \<and> fst (generateAction
        (sample_world [''bundle.yaml''] True (Inl (CalleeError ''no store'')) None)
        \<lparr>source = ''bundle.yaml'', target = ''out''\<rparr>) = Some (CalleeError ''no store'')
 \<and> CalleeError ''no store'' \<noteq> Errorf ''no operator found'' []"
proof -
  let ?w = "sample_world [''bundle.yaml''] True (Inl (CalleeError ''no store'')) None"
  let ?c = "\<lparr>source = ''bundle.yaml'', target = ''out''\<rparr>"
  have h1: "\<not> FileExists ?w (target ?c)" by (simp add: sample_world_def)
  have h2: "loads ?w ?c \<lparr>Requires = \<lparr>Operator = True\<rparr>\<rparr>"
    by (simp add: loads_def sample_world_def)
  have h3: "Operator (Requires \<lparr>Requires = \<lparr>Operator = True\<rparr>\<rparr>)" by simp
  have h4: "GetAuthBuilder ?w = Inl (CalleeError ''no store'')" by (simp add: sample_world_def)
  from store_handle_failure_returned [OF h1 h2 h3 h4] h1 h2 h4
  show ?thesis by simp
qed

subsection \<open>The order of the steps\<close>

text \<open>
  Claim C4. When a run calls the renderer, the one step that writes, then the target
  did not exist, the source resolved to the bundle that is rendered, and the
  requirements of that bundle passed (if it requires an operator, the handle was
  obtained and the store lists one). The call of the renderer is the last call and the
  only one of its kind, a loading call came before it, for a bundle that requires an
  operator the calls to the store came before it, and the calls of the run follow the
  fixed order: target check, loading, requirements, rendering.
\<close>

theorem render_only_after_requirements:
  assumes "generateAction w c = (res, tr)" and "x \<in> set tr" and "is_Run_call x"
  shows "\<exists>b. x = Run_call b (target c)
                 [''_target'' \<mapsto> AnyString (target c), ''_source'' \<mapsto> AnyString (source c)]
                 (opts_Trace w)
            \<and> \<not> FileExists w (target c) \<and> loads w c b \<and> requirements_pass w b
            \<and> last tr = x \<and> (\<forall>y \<in> set (butlast tr). \<not> is_Run_call y)
            \<and> (\<exists>y \<in> set (butlast tr). is_loading_call y)
            \<and> (Operator (Requires b) \<longrightarrow> GetAuthBuilder_call \<in> set (butlast tr)
                 \<and> (\<exists>y \<in> set (butlast tr). call_order y = 4))
            \<and> sorted_wrt (<) (map call_order tr)"
  using assms
  by (auto simp: generateAction_def loads_def requirements_pass_def Let_def butlast_append
           split: run_splits)

theorem render_only_after_requirements_witness:
  "generateAction (sample_world [] True (Inr 2) None)
      \<lparr>source = ''https://example.com/bundle'', target = ''out''\<rparr>
    = (None,
       [FileExists_call ''out'', url_Parse_call ''https://example.com/bundle'',
        FromUrl_call \<lparr>Scheme = ''https''\<rparr>, GetAuthBuilder_call, Operators_List_call 2,
        Run_call \<lparr>Requires = \<lparr>Operator = True\<rparr>\<rparr> ''out''
          [''_target'' \<mapsto> AnyString ''out'',
           ''_source'' \<mapsto> AnyString ''https://example.com/bundle''] False])
 \<and> loads (sample_world [] True (Inr 2) None)
      \<lparr>source = ''https://example.com/bundle'', target = ''out''\<rparr>
      \<lparr>Requires = \<lparr>Operator = True\<rparr>\<rparr>
 \<and> requirements_pass (sample_world [] True (Inr 2) None) \<lparr>Requires = \<lparr>Operator = True\<rparr>\<rparr>"
proof -
  let ?w = "sample_world [] True (Inr 2) None"
  let ?c = "\<lparr>source = ''https://example.com/bundle'', target = ''out''\<rparr>"
  let ?x = "Run_call \<lparr>Requires = \<lparr>Operator = True\<rparr>\<rparr> ''out''
          [''_target'' \<mapsto> AnyString ''out'',
           ''_source'' \<mapsto> AnyString ''https://example.com/bundle''] False"
  let ?tr = "[FileExists_call ''out'', url_Parse_call ''https://example.com/bundle'',
        FromUrl_call \<lparr>Scheme = ''https''\<rparr>, GetAuthBuilder_call, Operators_List_call 2, ?x]"
  have run: "generateAction ?w ?c = (None, ?tr)"
    by (simp add: generateAction_def sample_world_def sample_parse_def numeral_2_eq_2)
  have mem: "?x \<in> set ?tr" by simp
  have isr: "is_Run_call ?x" by simp
  from render_only_after_requirements [OF run mem isr]
  obtain b where "?x = Run_call b (target ?c)
                 [''_target'' \<mapsto> AnyString (target ?c), ''_source'' \<mapsto> AnyString (source ?c)]
                 (opts_Trace ?w)"
    and "loads ?w ?c b" and "requirements_pass ?w b"
    by blast
  then have "loads ?w ?c \<lparr>Requires = \<lparr>Operator = True\<rparr>\<rparr>"
    and "requirements_pass ?w \<lparr>Requires = \<lparr>Operator = True\<rparr>\<rparr>"
    by simp_all
  with run show ?thesis by simp
qed

subsection \<open>The environment\<close>

text \<open>
  Claim C5. In a run that calls the renderer, the renderer is given the target of the
  command line, which does not exist yet, and the environment it is given maps
  \<^verbatim>\<open>_target\<close> to that target string and \<^verbatim>\<open>_source\<close> to the source string of the
  command line, both as they were typed.
\<close>

theorem env_reserved_keys:
  assumes "Run_call b t e tr \<in> set (snd (generateAction w c))"
  shows "t = target c \<and> \<not> FileExists w (target c)
       \<and> e ''_target'' = Some (AnyString (target c))
       \<and> e ''_source'' = Some (AnyString (source c))"
  using assms
  by (auto simp: generateAction_def Let_def split: run_splits)

theorem env_reserved_keys_witness:
  "Run_call \<lparr>Requires = \<lparr>Operator = False\<rparr>\<rparr> ''./out''
     [''_target'' \<mapsto> AnyString ''./out'', ''_source'' \<mapsto> AnyString ''../bundle.yaml''] False
     \<in> set (snd (generateAction (sample_world [''../bundle.yaml''] False (Inr 0) None)
                   \<lparr>source = ''../bundle.yaml'', target = ''./out''\<rparr>))
 \<and> [''_target'' \<mapsto> AnyString ''./out'', ''_source'' \<mapsto> AnyString ''../bundle.yaml'']
      ''_target'' = Some (AnyString ''./out'')
 \<and> [''_target'' \<mapsto> AnyString ''./out'', ''_source'' \<mapsto> AnyString ''../bundle.yaml'']
      ''_source'' = Some (AnyString ''../bundle.yaml'')"
proof -
  let ?w = "sample_world [''../bundle.yaml''] False (Inr 0) None"
  let ?c = "\<lparr>source = ''../bundle.yaml'', target = ''./out''\<rparr>"
  let ?e = "[''_target'' \<mapsto> AnyString ''./out'', ''_source'' \<mapsto> AnyString ''../bundle.yaml'']"
  have mem: "Run_call \<lparr>Requires = \<lparr>Operator = False\<rparr>\<rparr> ''./out'' ?e False
               \<in> set (snd (generateAction ?w ?c))"
    by (simp add: generateAction_def sample_world_def)
  from env_reserved_keys [OF mem] mem show ?thesis by simp
qed

text \<open>
  Claim C8. In a run that calls the renderer, the environment the renderer is given
  has the two keys \<^verbatim>\<open>_target\<close> and \<^verbatim>\<open>_source\<close> and no other: it is the map built
  from the command line alone, and nothing of the bundle is merged into it.
\<close>

theorem env_exactly_reserved_keys:
  assumes "Run_call b t e tr \<in> set (snd (generateAction w c))"
  shows "dom e = {''_target'', ''_source''}
       \<and> e = [''_target'' \<mapsto> AnyString (target c), ''_source'' \<mapsto> AnyString (source c)]"
  using assms
  by (auto simp: generateAction_def Let_def split: run_splits)

theorem env_exactly_reserved_keys_witness:
  "Run_call \<lparr>Requires = \<lparr>Operator = True\<rparr>\<rparr> ''out''
     [''_target'' \<mapsto> AnyString ''out'', ''_source'' \<mapsto> AnyString ''bundle.yaml''] False
     \<in> set (snd (generateAction (sample_world [''bundle.yaml''] True (Inr 1) None)
                   \<lparr>source = ''bundle.yaml'', target = ''out''\<rparr>))
 \<and> dom [''_target'' \<mapsto> AnyString ''out'', ''_source'' \<mapsto> AnyString ''bundle.yaml'']
    = {''_target'', ''_source''}"
proof -
  let ?w = "sample_world [''bundle.yaml''] True (Inr 1) None"
  let ?c = "\<lparr>source = ''bundle.yaml'', target = ''out''\<rparr>"
  let ?e = "[''_target'' \<mapsto> AnyString ''out'', ''_source'' \<mapsto> AnyString ''bundle.yaml'']"
  have mem: "Run_call \<lparr>Requires = \<lparr>Operator = True\<rparr>\<rparr> ''out'' ?e False
               \<in> set (snd (generateAction ?w ?c))"
    by (simp add: generateAction_def sample_world_def)
  from env_exactly_reserved_keys [OF mem] mem show ?thesis by blast
qed

subsection \<open>Rendering\<close>

text \<open>
  Claim C6. On the renderer of the specification: two runs with the same bundle and the
  same environment, each into a fresh target of its own file system, with tracing on or
  off, end with the same error or success and leave the same output tree, path by path
  and byte by byte, at their targets.
\<close>

theorem rendering_independent_of_target:
  assumes "fresh f1 t1" and "fresh f2 t2"
  shows "fst (Run_spec fmt b t1 e tr1 f1) = fst (Run_spec fmt b t2 e tr2 f2)
       \<and> output_tree (fst (snd (Run_spec fmt b t1 e tr1 f1))) t1
         = output_tree (fst (snd (Run_spec fmt b t2 e tr2 f2))) t2"
proof -
  from assms have "output_tree f1 t1 = output_tree f2 t2"
    by (simp add: fresh_def output_tree_def fun_eq_iff)
  then have "output_tree (f1(join t1 [] \<mapsto> Directory)) t1
           = output_tree (f2(join t2 [] \<mapsto> Directory)) t2"
    by (rule output_tree_update)
  then have "output_tree (f1(t1 \<mapsto> Directory)) t1 = output_tree (f2(t2 \<mapsto> Directory)) t2"
    by (simp add: join_def)
  then have "fst (render_entries fmt t1 e tr1 (entries b) (f1(t1 \<mapsto> Directory)) [])
        = fst (render_entries fmt t2 e tr2 (entries b) (f2(t2 \<mapsto> Directory)) [])
      \<and> output_tree (fst (snd (render_entries fmt t1 e tr1 (entries b) (f1(t1 \<mapsto> Directory)) []))) t1
        = output_tree (fst (snd (render_entries fmt t2 e tr2 (entries b) (f2(t2 \<mapsto> Directory)) []))) t2"
    by (rule render_entries_same)
  moreover have "Run_spec fmt b t1 e tr1 f1
      = render_entries fmt t1 e tr1 (entries b) (f1(t1 \<mapsto> Directory)) []"
    using fresh_target [OF assms(1)] by (simp add: Run_spec_def del: fun_upd_apply)
  moreover have "Run_spec fmt b t2 e tr2 f2
      = render_entries fmt t2 e tr2 (entries b) (f2(t2 \<mapsto> Directory)) []"
    using fresh_target [OF assms(2)] by (simp add: Run_spec_def del: fun_upd_apply)
  ultimately show ?thesis by (simp only:)
qed

theorem rendering_independent_of_target_witness:
  "fresh Map.empty ''out1'' \<and> fresh Map.empty ''/srv/out2''
 \<and> output_tree (fst (snd (Run_spec plain hello_bundle ''out1'' hello_env False Map.empty))) ''out1''
   = output_tree (fst (snd (Run_spec plain hello_bundle ''/srv/out2'' hello_env True Map.empty)))
       ''/srv/out2''
 \<and> output_tree (fst (snd (Run_spec plain hello_bundle ''out1'' hello_env False Map.empty))) ''out1''
     [''conf.d'', ''extra.txt''] = Some (File ''from bundle.yaml'')"
proof -
  have f1: "fresh Map.empty ''out1''" and f2: "fresh Map.empty ''/srv/out2''"
    by (simp_all add: fresh_def)
  have "output_tree (fst (snd (Run_spec plain hello_bundle ''out1'' hello_env False Map.empty)))
          ''out1'' [''conf.d'', ''extra.txt''] = Some (File ''from bundle.yaml'')"
    by (simp add: Run_spec_def hello_bundle_def hello_env_def join_def make_parents_def
          output_tree_def)
  with f1 f2 rendering_independent_of_target [OF f1 f2, of plain hello_bundle hello_env False True]
  show ?thesis by simp
qed

subsection \<open>Errors\<close>

text \<open>
  Claim C7. In every run, every call but the last came back without an error, and an
  error of the last call is the result of the run, as it is: the first stage that fails
  ends the run, and no later stage is called. The calls follow the fixed order of the
  pipeline strictly, so no call is made twice. The run returns \<^verbatim>\<open>nil\<close> only when the
  renderer was called last and returned \<^verbatim>\<open>nil\<close>; an error the run returns is the error
  of its last call or one of the three errors \<^verbatim>\<open>generateAction\<close> makes itself.
  When the renderer is called, it is the last call and its result, error or \<^verbatim>\<open>nil\<close>,
  is the result of the run. An error that is not the error of the last call is one of
  the three made in place, and it ends the run where it is made: the renderer is not
  called, and the calls stop at the target check for the target that exists, at the
  parse for the URL without scheme, and at the query of the store for the empty list
  of operators.
\<close>

theorem first_error_is_outcome:
  assumes "generateAction w c = (res, tr)"
  shows "(\<forall>x \<in> set (butlast tr). call_error w x = None)
       \<and> (\<forall>e. call_error w (last tr) = Some e \<longrightarrow> res = Some e)
       \<and> sorted_wrt (<) (map call_order tr)
       \<and> (res = None \<longrightarrow> is_Run_call (last tr) \<and> call_error w (last tr) = None)
       \<and> (\<forall>e. res = Some e \<longrightarrow>
             call_error w (last tr) = Some e
           \<or> e = Errorf ''target directory %s already exist'' [target c]
           \<or> e = Errorf ''invalid URL %q'' [source c]
           \<or> e = Errorf ''no operator found'' [])
       \<and> (\<forall>x \<in> set tr. is_Run_call x \<longrightarrow> x = last tr \<and> res = call_error w x)
       \<and> (\<forall>e. res = Some e \<and> call_error w (last tr) \<noteq> Some e \<longrightarrow>
             (\<forall>x \<in> set tr. \<not> is_Run_call x)
           \<and> (e = Errorf ''target directory %s already exist'' [target c]
                  \<and> FileExists w (target c) \<and> tr = [FileExists_call (target c)]
              \<or> e = Errorf ''invalid URL %q'' [source c]
                  \<and> tr = [FileExists_call (target c), url_Parse_call (source c)]
              \<or> e = Errorf ''no operator found'' []
                  \<and> (\<exists>auth. last tr = Operators_List_call auth
                         \<and> Operators_List w auth = [])))"
  using assms
  by (auto simp: generateAction_def Let_def butlast_append split: run_splits)

theorem first_error_is_outcome_witness:
  "generateAction (sample_world [] True (Inr 1) None)
      \<lparr>source = ''bundle.yaml'', target = ''out''\<rparr>
    = (Some (CalleeError ''no such file or directory''),
       [FileExists_call ''out'', FromFile_call ''bundle.yaml''])
 \<and> call_error (sample_world [] True (Inr 1) None) (FromFile_call ''bundle.yaml'')
    = Some (CalleeError ''no such file or directory'')
 \<and> generateAction (sample_world [''bundle.yaml''] True (Inr 1) (Some (CalleeError ''render'')))
      \<lparr>source = ''bundle.yaml'', target = ''out''\<rparr>
    = (Some (CalleeError ''render''),
       [FileExists_call ''out'', FromFile_call ''bundle.yaml'', GetAuthBuilder_call,
        Operators_List_call 1,
        Run_call \<lparr>Requires = \<lparr>Operator = True\<rparr>\<rparr> ''out''
          [''_target'' \<mapsto> AnyString ''out'', ''_source'' \<mapsto> AnyString ''bundle.yaml''] False])
 \<and> generateAction (sample_world [''bundle.yaml''] True (Inr 1) None)
      \<lparr>source = ''bundle.yaml'', target = ''out''\<rparr>
    = (None,
       [FileExists_call ''out'', FromFile_call ''bundle.yaml'', GetAuthBuilder_call,
        Operators_List_call 1,
        Run_call \<lparr>Requires = \<lparr>Operator = True\<rparr>\<rparr> ''out''
          [''_target'' \<mapsto> AnyString ''out'', ''_source'' \<mapsto> AnyString ''bundle.yaml''] False])"
proof -
  let ?c = "\<lparr>source = ''bundle.yaml'', target = ''out''\<rparr>"
  let ?x = "Run_call \<lparr>Requires = \<lparr>Operator = True\<rparr>\<rparr> ''out''
          [''_target'' \<mapsto> AnyString ''out'', ''_source'' \<mapsto> AnyString ''bundle.yaml''] False"
  have r1: "generateAction (sample_world [] True (Inr 1) None) ?c
    = (Some (CalleeError ''no such file or directory''),
       [FileExists_call ''out'', FromFile_call ''bundle.yaml''])"
    by (simp add: generateAction_def sample_world_def)
  have r2: "generateAction (sample_world [''bundle.yaml''] True (Inr 1) (Some (CalleeError ''render''))) ?c
    = (Some (CalleeError ''render''),
       [FileExists_call ''out'', FromFile_call ''bundle.yaml'', GetAuthBuilder_call,
        Operators_List_call 1, ?x])"
    by (simp add: generateAction_def sample_world_def)
  have r3: "generateAction (sample_world [''bundle.yaml''] True (Inr 1) None) ?c
    = (None,
       [FileExists_call ''out'', FromFile_call ''bundle.yaml'', GetAuthBuilder_call,
        Operators_List_call 1, ?x])"
    by (simp add: generateAction_def sample_world_def)
  have e1: "call_error (sample_world [] True (Inr 1) None) (FromFile_call ''bundle.yaml'')
    = Some (CalleeError ''no such file or directory'')"
    by (simp add: sample_world_def)
  from first_error_is_outcome [OF r1]
  have "\<forall>e. call_error (sample_world [] True (Inr 1) None)
              (last [FileExists_call ''out'', FromFile_call ''bundle.yaml'']) = Some e
            \<longrightarrow> Some (CalleeError ''no such file or directory'') = Some e"
    by blast
  with first_error_is_outcome [OF r2] first_error_is_outcome [OF r3] r1 r2 r3 e1
  show ?thesis by blast
qed

end
